theory Spec2Isabelle
  imports Complex_Main "HOL-Library.Multiset"
begin

section \<open>Data model of \<open>src/lib/highlighting-logic.ts\<close>\<close>

text \<open>
  The module exports four functions over the node and edge objects of the diagram
  library. Only the fields that the module reads or writes are named here; every other
  field of a node or an edge (position, data, label, type of an edge, ...) lives in the
  extension part of the record (\<open>('s, 'a) Node_scheme\<close>, \<open>('s, 'a) Edge_scheme\<close>), which a record
  update carries over untouched exactly as the object spread \<^verbatim>\<open>{ ...node, style: ... }\<close>
  does. The \<^verbatim>\<open>style\<close> field is a parameter \<open>'s\<close> of the records: in the functions below it is
  the style object itself (\<open>style_object\<close>); in the store model of the last sections it is
  the address of the style object.

  JavaScript numbers are only copied from the configuration into the style objects, never
  computed with, so they are modelled as \<open>real\<close>. A style object is a finite table from
  property names to values; key order plays no role in deep equality, so it is a map.
  A \<^verbatim>\<open>Set<string>\<close> is a \<open>string set\<close>.
\<close>

datatype css_value = CssNum real | CssStr string

type_synonym style_object = "string \<rightharpoonup> css_value"

record HighlightingResult =
  highlightedNodes :: "string set"
  highlightedEdges :: "string set"

record HighlightingConfig =
  dimmedOpacity :: real
  highlightedOpacity :: real
  highlightedStrokeWidth :: real
  normalStrokeWidth :: real
  highlightedEdgeColor :: string
  normalEdgeColor :: string

text \<open>
  \<^verbatim>\<open>Node\<close>: \<^verbatim>\<open>id: string\<close>, \<^verbatim>\<open>type?: string\<close>, \<^verbatim>\<open>style?: CSSProperties\<close>.
\<close>

record 's Node =
  node_id :: string
  node_type :: "string option"
  node_style :: "'s option"

text \<open>
  \<^verbatim>\<open>Edge\<close>: \<^verbatim>\<open>id: string\<close>, \<^verbatim>\<open>source: string\<close>, \<^verbatim>\<open>target: string\<close>,
  \<^verbatim>\<open>style?: CSSProperties\<close>, \<^verbatim>\<open>animated?: boolean\<close>.
\<close>

record 's Edge =
  edge_id :: string
  source :: string
  target :: string
  edge_style :: "'s option"
  animated :: "bool option"

definition DEFAULT_HIGHLIGHTING_CONFIG :: HighlightingConfig where
  "DEFAULT_HIGHLIGHTING_CONFIG =
     \<lparr> dimmedOpacity = 0.3,
       highlightedOpacity = 1,
       highlightedStrokeWidth = 3,
       normalStrokeWidth = 2,
       highlightedEdgeColor = ''#3b82f6'',
       normalEdgeColor = ''#6b7280'' \<rparr>"

text \<open>
  A parameter declared \<^verbatim>\<open>config: HighlightingConfig = DEFAULT_HIGHLIGHTING_CONFIG\<close> takes the
  default when the caller passes nothing (\<open>None\<close>).
\<close>

definition config_or_default :: "HighlightingConfig option \<Rightarrow> HighlightingConfig" where
  "config_or_default config =
     (case config of None \<Rightarrow> DEFAULT_HIGHLIGHTING_CONFIG | Some c \<Rightarrow> c)"

text \<open>
  The selected node identifier has type \<^verbatim>\<open>string | null\<close>. The module never compares it
  with \<^verbatim>\<open>null\<close>; it tests its truthiness (\<^verbatim>\<open>if (!selectedNodeId)\<close>,
  \<^verbatim>\<open>if (selectedNodeId)\<close>, \<^verbatim>\<open>selectedNodeId ? ... : ...\<close>). A string is truthy
  exactly when it is not the empty string.
\<close>

fun truthy :: "string option \<Rightarrow> bool" where
  "truthy None = False"
| "truthy (Some s) = (s \<noteq> [])"

text \<open>The object spread \<^verbatim>\<open>...x.style\<close> of a missing style contributes no entry.\<close>

definition spread_style :: "style_object option \<Rightarrow> style_object" where
  "spread_style st = (case st of None \<Rightarrow> Map.empty | Some m \<Rightarrow> m)"


text \<open>Reading one entry of an optional style, as \<^verbatim>\<open>x.style?.opacity\<close> does.\<close>

definition style_entry :: "style_object option \<Rightarrow> string \<Rightarrow> css_value option" where
  "style_entry st k = (case st of None \<Rightarrow> None | Some m \<Rightarrow> m k)"

section \<open>\<open>calculateHighlighting\<close>\<close>

text \<open>The body of the \<^verbatim>\<open>edges.forEach\<close> callback, acting on the two sets.\<close>

definition visit_edge ::
  "string \<Rightarrow> ('s, 'a) Edge_scheme \<Rightarrow> HighlightingResult \<Rightarrow> HighlightingResult" where
  "visit_edge selectedNodeId edge acc =
     (let isConnectedToSelected = (source edge = selectedNodeId \<or> target edge = selectedNodeId)
      in if isConnectedToSelected
         then \<lparr> highlightedNodes =
                  insert (target edge) (insert (source edge) (highlightedNodes acc)),
                highlightedEdges = insert (edge_id edge) (highlightedEdges acc) \<rparr>
         else acc)"

fun forEach_edge ::
  "string \<Rightarrow> ('s, 'a) Edge_scheme list \<Rightarrow> HighlightingResult \<Rightarrow> HighlightingResult" where
  "forEach_edge selectedNodeId [] acc = acc"
| "forEach_edge selectedNodeId (edge # edges) acc =
     forEach_edge selectedNodeId edges (visit_edge selectedNodeId edge acc)"

definition calculateHighlighting ::
  "string option \<Rightarrow> ('s, 'a) Edge_scheme list \<Rightarrow> HighlightingResult" where
  "calculateHighlighting selectedNodeId edges =
     (if \<not> truthy selectedNodeId
      then \<lparr> highlightedNodes = {}, highlightedEdges = {} \<rparr>
      else forEach_edge (the selectedNodeId) edges
             \<lparr> highlightedNodes = {the selectedNodeId}, highlightedEdges = {} \<rparr>)"

section \<open>\<open>applyNodeHighlighting\<close>\<close>

text \<open>The callback of \<^verbatim>\<open>nodes.map\<close>: the opacity it computes, and the node it returns.\<close>

definition node_opacity ::
  "HighlightingResult \<Rightarrow> string option \<Rightarrow> HighlightingConfig \<Rightarrow> ('s, 'a) Node_scheme \<Rightarrow> real" where
  "node_opacity highlightingResult selectedNodeId config node =
     (if truthy selectedNodeId
      then (let isHighlighted = (node_id node \<in> highlightedNodes highlightingResult);
                isBackgroundNode = (node_type node = Some ''background'')
            in if isHighlighted \<or> isBackgroundNode
               then highlightedOpacity config else dimmedOpacity config)
      else highlightedOpacity config)"

definition style_node ::
  "HighlightingResult \<Rightarrow> string option \<Rightarrow> HighlightingConfig
     \<Rightarrow> (style_object, 'a) Node_scheme \<Rightarrow> (style_object, 'a) Node_scheme" where
  "style_node highlightingResult selectedNodeId config node =
     node \<lparr> node_style :=
       Some ((spread_style (node_style node))
               (''opacity'' \<mapsto> CssNum (node_opacity highlightingResult selectedNodeId config node))) \<rparr>"

definition applyNodeHighlighting ::
  "(style_object, 'a) Node_scheme list \<Rightarrow> HighlightingResult \<Rightarrow> string option
     \<Rightarrow> HighlightingConfig option \<Rightarrow> (style_object, 'a) Node_scheme list" where
  "applyNodeHighlighting nodes highlightingResult selectedNodeId config =
     map (style_node highlightingResult selectedNodeId (config_or_default config)) nodes"

section \<open>\<open>applyEdgeHighlighting\<close>\<close>

definition edge_isHighlighted :: "HighlightingResult \<Rightarrow> ('s, 'a) Edge_scheme \<Rightarrow> bool" where
  "edge_isHighlighted highlightingResult edge =
     (edge_id edge \<in> highlightedEdges highlightingResult)"

definition edge_strokeWidth ::
  "HighlightingResult \<Rightarrow> HighlightingConfig \<Rightarrow> ('s, 'a) Edge_scheme \<Rightarrow> real" where
  "edge_strokeWidth highlightingResult config edge =
     (if edge_isHighlighted highlightingResult edge
      then highlightedStrokeWidth config else normalStrokeWidth config)"

definition edge_strokeColor ::
  "HighlightingResult \<Rightarrow> HighlightingConfig \<Rightarrow> ('s, 'a) Edge_scheme \<Rightarrow> string" where
  "edge_strokeColor highlightingResult config edge =
     (if edge_isHighlighted highlightingResult edge
      then highlightedEdgeColor config else normalEdgeColor config)"

definition edge_opacity ::
  "HighlightingResult \<Rightarrow> string option \<Rightarrow> HighlightingConfig \<Rightarrow> ('s, 'a) Edge_scheme \<Rightarrow> real" where
  "edge_opacity highlightingResult selectedNodeId config edge =
     (if truthy selectedNodeId
      then (if edge_isHighlighted highlightingResult edge
            then highlightedOpacity config else dimmedOpacity config)
      else highlightedOpacity config)"

text \<open>The three entries that the callback writes after \<^verbatim>\<open>...edge.style\<close>.\<close>

definition edge_style_entries ::
  "HighlightingResult \<Rightarrow> string option \<Rightarrow> HighlightingConfig \<Rightarrow> ('s, 'a) Edge_scheme
     \<Rightarrow> style_object \<Rightarrow> style_object" where
  "edge_style_entries highlightingResult selectedNodeId config edge m =
     m (''strokeWidth'' \<mapsto> CssNum (edge_strokeWidth highlightingResult config edge),
        ''stroke'' \<mapsto> CssStr (edge_strokeColor highlightingResult config edge),
        ''opacity'' \<mapsto> CssNum (edge_opacity highlightingResult selectedNodeId config edge))"

definition style_edge ::
  "HighlightingResult \<Rightarrow> string option \<Rightarrow> HighlightingConfig
     \<Rightarrow> (style_object, 'a) Edge_scheme \<Rightarrow> (style_object, 'a) Edge_scheme" where
  "style_edge highlightingResult selectedNodeId config edge =
     edge \<lparr> edge_style :=
              Some (edge_style_entries highlightingResult selectedNodeId config edge
                      (spread_style (edge_style edge))),
            animated := Some (edge_isHighlighted highlightingResult edge) \<rparr>"

definition applyEdgeHighlighting ::
  "(style_object, 'a) Edge_scheme list \<Rightarrow> HighlightingResult \<Rightarrow> string option
     \<Rightarrow> HighlightingConfig option \<Rightarrow> (style_object, 'a) Edge_scheme list" where
  "applyEdgeHighlighting edges highlightingResult selectedNodeId config =
     map (style_edge highlightingResult selectedNodeId (config_or_default config)) edges"

section \<open>\<open>applyCompleteHighlighting\<close>\<close>

record ('a, 'b) CompleteHighlighting =
  styledNodes :: "(style_object, 'a) Node_scheme list"
  styledEdges :: "(style_object, 'b) Edge_scheme list"
  highlightingResult :: HighlightingResult

definition applyCompleteHighlighting ::
  "(style_object, 'a) Node_scheme list \<Rightarrow> (style_object, 'b) Edge_scheme list
     \<Rightarrow> string option \<Rightarrow> HighlightingConfig option \<Rightarrow> ('a, 'b) CompleteHighlighting" where
  "applyCompleteHighlighting nodes edges selectedNodeId config =
     (let cfg = config_or_default config;
          hr = calculateHighlighting selectedNodeId edges;
          sn = applyNodeHighlighting nodes hr selectedNodeId (Some cfg);
          se = applyEdgeHighlighting edges hr selectedNodeId (Some cfg)
      in \<lparr> styledNodes = sn, styledEdges = se, highlightingResult = hr \<rparr>)"

section \<open>Test data of \<open>src/lib/__tests__/highlighting-logic.test.ts\<close>\<close>

text \<open>
  \<^verbatim>\<open>mockEdges\<close> and \<^verbatim>\<open>mockNodes\<close> of the test suite, restricted to the fields named above.
\<close>

definition mk_edge :: "string \<Rightarrow> string \<Rightarrow> string \<Rightarrow> style_object Edge" where
  "mk_edge i s t =
     \<lparr> edge_id = i, source = s, target = t, edge_style = None, animated = None \<rparr>"

definition mk_node :: "string \<Rightarrow> string \<Rightarrow> style_object Node" where
  "mk_node i ty = \<lparr> node_id = i, node_type = Some ty, node_style = None \<rparr>"

definition mockEdges :: "style_object Edge list" where
  "mockEdges =
     [mk_edge ''e1'' ''node1'' ''node2'',
      mk_edge ''e2'' ''node2'' ''node3'',
      mk_edge ''e3'' ''node1'' ''node4'',
      mk_edge ''e4'' ''node5'' ''node6'']"

definition mockNodes :: "style_object Node list" where
  "mockNodes =
     [mk_node ''node1'' ''custom'', mk_node ''node2'' ''custom'', mk_node ''node3'' ''custom'',
      mk_node ''node4'' ''custom'', mk_node ''node5'' ''custom'', mk_node ''node6'' ''custom'',
      mk_node ''bg1'' ''background'']"

text \<open>A node and an edge that come with style entries of their own.\<close>

definition styledMockNode :: "style_object Node" where
  "styledMockNode =
     \<lparr> node_id = ''node1'', node_type = Some ''custom'',
       node_style = Some [''width'' \<mapsto> CssNum 200, ''opacity'' \<mapsto> CssNum 0.5] \<rparr>"

definition styledMockEdge :: "style_object Edge" where
  "styledMockEdge =
     \<lparr> edge_id = ''e1'', source = ''node1'', target = ''node2'',
       edge_style = Some [''strokeDasharray'' \<mapsto> CssStr ''5 5'', ''stroke'' \<mapsto> CssStr ''red''],
       animated = Some False \<rparr>"

section \<open>The functions on a store\<close>

text \<open>
  Arrays and objects are references in JavaScript, so "the inputs are not changed" is a
  statement about the store. The store is a list of cells and an address is an index into
  it; \<open>new_object\<close> appends a cell. A node or edge cell holds the object with the address of
  its style object in the \<open>style\<close> field; an array cell holds the addresses of its elements.
  The remaining fields sit in the extension part and are copied as they are, which is the
  shallow copy of the spread. Reading a cell of the wrong kind, or an address that is not
  allocated, gives \<open>None\<close>: the TypeScript types exclude it.
\<close>

type_synonym addr = nat

datatype ('a, 'b) cell =
    StyleCell style_object
  | NodeCell "(addr, 'a) Node_scheme"
  | EdgeCell "(addr, 'b) Edge_scheme"
  | ArrayCell "addr list"

type_synonym ('a, 'b) heap = "('a, 'b) cell list"

definition new_object :: "('a, 'b) cell \<Rightarrow> ('a, 'b) heap \<Rightarrow> addr \<times> ('a, 'b) heap" where
  "new_object c h = (length h, h @ [c])"

definition cell_at :: "('a, 'b) heap \<Rightarrow> addr \<Rightarrow> ('a, 'b) cell option" where
  "cell_at h a = (if a < length h then Some (h ! a) else None)"

definition get_node :: "('a, 'b) heap \<Rightarrow> addr \<Rightarrow> (addr, 'a) Node_scheme option" where
  "get_node h a = (case cell_at h a of Some (NodeCell n) \<Rightarrow> Some n | _ \<Rightarrow> None)"

definition get_edge :: "('a, 'b) heap \<Rightarrow> addr \<Rightarrow> (addr, 'b) Edge_scheme option" where
  "get_edge h a = (case cell_at h a of Some (EdgeCell e) \<Rightarrow> Some e | _ \<Rightarrow> None)"

definition get_array :: "('a, 'b) heap \<Rightarrow> addr \<Rightarrow> addr list option" where
  "get_array h a = (case cell_at h a of Some (ArrayCell xs) \<Rightarrow> Some xs | _ \<Rightarrow> None)"

definition get_style :: "('a, 'b) heap \<Rightarrow> addr option \<Rightarrow> style_object option option" where
  "get_style h r =
     (case r of
        None \<Rightarrow> Some None
      | Some a \<Rightarrow> (case cell_at h a of Some (StyleCell m) \<Rightarrow> Some (Some m) | _ \<Rightarrow> None))"

text \<open>
  The four functions once more, now reading their arguments from the store and allocating
  what the source allocates: the style object and the object of each
  \<^verbatim>\<open>{ ...x, style: { ...x.style, ... } }\<close>, and the array that \<^verbatim>\<open>map\<close> returns. The two sets
  of the calculator are fresh local objects; they are returned by value. No function
  contains an assignment to a property of an object it was given, so no store operation
  here overwrites a cell.
\<close>

definition calculateHighlighting_h ::
  "string option \<Rightarrow> addr \<Rightarrow> ('a, 'b) heap \<Rightarrow> HighlightingResult option" where
  "calculateHighlighting_h selectedNodeId edges h =
     (if \<not> truthy selectedNodeId
      then Some \<lparr> highlightedNodes = {}, highlightedEdges = {} \<rparr>
      else (case get_array h edges of
              None \<Rightarrow> None
            | Some as \<Rightarrow>
                (case those (map (get_edge h) as) of
                   None \<Rightarrow> None
                 | Some es \<Rightarrow>
                     Some (forEach_edge (the selectedNodeId) es
                             \<lparr> highlightedNodes = {the selectedNodeId}, highlightedEdges = {} \<rparr>))))"

definition style_node_h ::
  "HighlightingResult \<Rightarrow> string option \<Rightarrow> HighlightingConfig \<Rightarrow> addr \<Rightarrow> ('a, 'b) heap
     \<Rightarrow> (addr \<times> ('a, 'b) heap) option" where
  "style_node_h hres selectedNodeId config a h =
     (case get_node h a of
        None \<Rightarrow> None
      | Some node \<Rightarrow>
          (case get_style h (node_style node) of
             None \<Rightarrow> None
           | Some st \<Rightarrow>
               (let opacity = node_opacity hres selectedNodeId config node;
                    (sa, h1) = new_object (StyleCell ((spread_style st)(''opacity'' \<mapsto> CssNum opacity))) h
                in Some (new_object (NodeCell (node \<lparr> node_style := Some sa \<rparr>)) h1))))"

definition style_edge_h ::
  "HighlightingResult \<Rightarrow> string option \<Rightarrow> HighlightingConfig \<Rightarrow> addr \<Rightarrow> ('a, 'b) heap
     \<Rightarrow> (addr \<times> ('a, 'b) heap) option" where
  "style_edge_h hres selectedNodeId config a h =
     (case get_edge h a of
        None \<Rightarrow> None
      | Some edge \<Rightarrow>
          (case get_style h (edge_style edge) of
             None \<Rightarrow> None
           | Some st \<Rightarrow>
               (let (sa, h1) = new_object (StyleCell (edge_style_entries hres
                                  selectedNodeId config edge (spread_style st))) h
                in Some (new_object (EdgeCell (edge \<lparr> edge_style := Some sa,
                           animated := Some (edge_isHighlighted hres edge) \<rparr>)) h1))))"

fun map_h ::
  "(addr \<Rightarrow> ('a, 'b) heap \<Rightarrow> (addr \<times> ('a, 'b) heap) option) \<Rightarrow> addr list \<Rightarrow> ('a, 'b) heap
     \<Rightarrow> (addr list \<times> ('a, 'b) heap) option" where
  "map_h f [] h = Some ([], h)"
| "map_h f (a # as) h =
     (case f a h of
        None \<Rightarrow> None
      | Some (b, h1) \<Rightarrow>
          (case map_h f as h1 of
             None \<Rightarrow> None
           | Some (bs, h2) \<Rightarrow> Some (b # bs, h2)))"

definition applyNodeHighlighting_h ::
  "addr \<Rightarrow> HighlightingResult \<Rightarrow> string option \<Rightarrow> HighlightingConfig option \<Rightarrow> ('a, 'b) heap
     \<Rightarrow> (addr \<times> ('a, 'b) heap) option" where
  "applyNodeHighlighting_h nodes hres selectedNodeId config h =
     (case get_array h nodes of
        None \<Rightarrow> None
      | Some as \<Rightarrow>
          (case map_h (style_node_h hres selectedNodeId (config_or_default config)) as h of
             None \<Rightarrow> None
           | Some (bs, h1) \<Rightarrow> Some (new_object (ArrayCell bs) h1)))"

definition applyEdgeHighlighting_h ::
  "addr \<Rightarrow> HighlightingResult \<Rightarrow> string option \<Rightarrow> HighlightingConfig option \<Rightarrow> ('a, 'b) heap
     \<Rightarrow> (addr \<times> ('a, 'b) heap) option" where
  "applyEdgeHighlighting_h edges hres selectedNodeId config h =
     (case get_array h edges of
        None \<Rightarrow> None
      | Some as \<Rightarrow>
          (case map_h (style_edge_h hres selectedNodeId (config_or_default config)) as h of
             None \<Rightarrow> None
           | Some (bs, h1) \<Rightarrow> Some (new_object (ArrayCell bs) h1)))"

record CompleteHighlighting_h =
  styledNodes_h :: addr
  styledEdges_h :: addr
  highlightingResult_h :: HighlightingResult

definition applyCompleteHighlighting_h ::
  "addr \<Rightarrow> addr \<Rightarrow> string option \<Rightarrow> HighlightingConfig option \<Rightarrow> ('a, 'b) heap
     \<Rightarrow> (CompleteHighlighting_h \<times> ('a, 'b) heap) option" where
  "applyCompleteHighlighting_h nodes edges selectedNodeId config h =
     (let cfg = config_or_default config
      in case calculateHighlighting_h selectedNodeId edges h of
           None \<Rightarrow> None
         | Some hr \<Rightarrow>
             (case applyNodeHighlighting_h nodes hr selectedNodeId (Some cfg) h of
                None \<Rightarrow> None
              | Some (sn, h1) \<Rightarrow>
                  (case applyEdgeHighlighting_h edges hr selectedNodeId (Some cfg) h1 of
                     None \<Rightarrow> None
                   | Some (se, h2) \<Rightarrow>
                       Some (\<lparr> styledNodes_h = sn, styledEdges_h = se,
                               highlightingResult_h = hr \<rparr>, h2))))"

text \<open>
  Reading an object back from the store, style included: the value that deep equality
  compares.
\<close>

definition read_node :: "('a, 'b) heap \<Rightarrow> addr \<Rightarrow> (style_object, 'a) Node_scheme option" where
  "read_node h a =
     (case get_node h a of
        None \<Rightarrow> None
      | Some n \<Rightarrow>
          (case get_style h (node_style n) of
             None \<Rightarrow> None
           | Some st \<Rightarrow>
               Some \<lparr> node_id = node_id n, node_type = node_type n, node_style = st,
                      \<dots> = Node.more n \<rparr>))"

definition read_edge :: "('a, 'b) heap \<Rightarrow> addr \<Rightarrow> (style_object, 'b) Edge_scheme option" where
  "read_edge h a =
     (case get_edge h a of
        None \<Rightarrow> None
      | Some e \<Rightarrow>
          (case get_style h (edge_style e) of
             None \<Rightarrow> None
           | Some st \<Rightarrow>
               Some \<lparr> edge_id = edge_id e, source = source e, target = target e,
                      edge_style = st, animated = animated e, \<dots> = Edge.more e \<rparr>))"

definition read_nodes :: "('a, 'b) heap \<Rightarrow> addr \<Rightarrow> (style_object, 'a) Node_scheme list option" where
  "read_nodes h arr =
     (case get_array h arr of None \<Rightarrow> None | Some as \<Rightarrow> those (map (read_node h) as))"

definition read_edges :: "('a, 'b) heap \<Rightarrow> addr \<Rightarrow> (style_object, 'b) Edge_scheme list option" where
  "read_edges h arr =
     (case get_array h arr of None \<Rightarrow> None | Some as \<Rightarrow> those (map (read_edge h) as))"

text \<open>Two stores holding the same two nodes and one edge, laid out differently.\<close>

definition demo_nodes :: "style_object Node list" where
  "demo_nodes =
     [\<lparr> node_id = ''node1'', node_type = Some ''custom'',
        node_style = Some [''width'' \<mapsto> CssNum 200] \<rparr>,
      \<lparr> node_id = ''node2'', node_type = Some ''custom'', node_style = None \<rparr>]"

definition demo_edges :: "style_object Edge list" where
  "demo_edges =
     [\<lparr> edge_id = ''e1'', source = ''node1'', target = ''node2'',
        edge_style = None, animated = None \<rparr>]"

definition demo_heap :: "(unit, unit) heap" where
  "demo_heap =
     [StyleCell [''width'' \<mapsto> CssNum 200],
      NodeCell \<lparr> node_id = ''node1'', node_type = Some ''custom'', node_style = Some 0 \<rparr>,
      NodeCell \<lparr> node_id = ''node2'', node_type = Some ''custom'', node_style = None \<rparr>,
      ArrayCell [1, 2],
      EdgeCell \<lparr> edge_id = ''e1'', source = ''node1'', target = ''node2'',
                 edge_style = None, animated = None \<rparr>,
      ArrayCell [4]]"

definition demo_heap_copy :: "(unit, unit) heap" where
  "demo_heap_copy =
     [EdgeCell \<lparr> edge_id = ''e1'', source = ''node1'', target = ''node2'',
                 edge_style = None, animated = None \<rparr>,
      ArrayCell [0],
      NodeCell \<lparr> node_id = ''node2'', node_type = Some ''custom'', node_style = None \<rparr>,
      StyleCell [''width'' \<mapsto> CssNum 200],
      NodeCell \<lparr> node_id = ''node1'', node_type = Some ''custom'', node_style = Some 3 \<rparr>,
      ArrayCell [4, 2]]"

section \<open>The highlight calculator\<close>

lemma forEach_edge_edges:
  "highlightedEdges (forEach_edge s es acc) =
     highlightedEdges acc \<union> edge_id ` {e \<in> set es. source e = s \<or> target e = s}"
  by (induction es arbitrary: acc) (auto simp: visit_edge_def)

lemma forEach_edge_nodes:
  "highlightedNodes (forEach_edge s es acc) =
     highlightedNodes acc \<union> source ` {e \<in> set es. source e = s \<or> target e = s}
                          \<union> target ` {e \<in> set es. source e = s \<or> target e = s}"
  by (induction es arbitrary: acc) (auto simp: visit_edge_def)

lemma calculateHighlighting_set_cong:
  "set es = set es' \<Longrightarrow> calculateHighlighting sel es = calculateHighlighting sel es'"
  by (simp add: calculateHighlighting_def forEach_edge_nodes forEach_edge_edges
        HighlightingResult.equality)

lemma calculateHighlighting_empty_id:
  "calculateHighlighting (Some '''') edges = \<lparr> highlightedNodes = {}, highlightedEdges = {} \<rparr>"
  by (simp add: calculateHighlighting_def)

text \<open>
  C5. With no selection (\<^verbatim>\<open>null\<close>) the calculator returns two empty sets, whatever the
  edges are. The function has no failing branch: it is total and returns this record.
\<close>

theorem calculateHighlighting_absent:
  "calculateHighlighting None edges = \<lparr> highlightedNodes = {}, highlightedEdges = {} \<rparr>"
  by (simp add: calculateHighlighting_def)

text \<open>
  C1. Let the selected identifier be a string other than the empty one, and let the edge
  identifiers be pairwise distinct. Then for every edge \<open>e\<close> of the sequence, \<open>e.id\<close> is in
  \<open>highlightedEdges\<close> exactly when \<open>e.source\<close> or \<open>e.target\<close> is the selected identifier.
  The restriction to non-empty identifiers is needed: the guard \<^verbatim>\<open>if (!selectedNodeId)\<close>
  takes the empty string for "no selection", as the closed instance after the theorem shows.
\<close>

theorem calculateHighlighting_edges_iff:
  assumes "s \<noteq> ''''"
    and "distinct (map edge_id edges)"
    and "e \<in> set edges"
  shows "edge_id e \<in> highlightedEdges (calculateHighlighting (Some s) edges)
           \<longleftrightarrow> source e = s \<or> target e = s"
proof -
  have "inj_on edge_id (set edges)"
    using assms(2) by (simp add: distinct_map)
  then have "edge_id e \<in> edge_id ` {x \<in> set edges. source x = s \<or> target x = s}
               \<longleftrightarrow> source e = s \<or> target e = s"
    using assms(3) by (auto dest: inj_onD)
  then show ?thesis
    using assms(1) by (simp add: calculateHighlighting_def forEach_edge_edges)
qed

text \<open>The test suite's edges with \<open>node1\<close> selected: \<open>e3\<close> is highlighted, \<open>e2\<close> is not.\<close>

theorem calculateHighlighting_edges_iff_witness:
  "''node1'' \<noteq> '''' \<and> distinct (map edge_id mockEdges)
     \<and> mk_edge ''e3'' ''node1'' ''node4'' \<in> set mockEdges
     \<and> mk_edge ''e2'' ''node2'' ''node3'' \<in> set mockEdges
     \<and> ''e3'' \<in> highlightedEdges (calculateHighlighting (Some ''node1'') mockEdges)
     \<and> ''e2'' \<notin> highlightedEdges (calculateHighlighting (Some ''node1'') mockEdges)"
proof -
  have d: "distinct (map edge_id mockEdges)"
    by (simp add: mockEdges_def mk_edge_def)
  have m3: "mk_edge ''e3'' ''node1'' ''node4'' \<in> set mockEdges"
    and m2: "mk_edge ''e2'' ''node2'' ''node3'' \<in> set mockEdges"
    by (simp_all add: mockEdges_def)
  have n: "''node1'' \<noteq> ''''" by simp
  show ?thesis
    using calculateHighlighting_edges_iff [OF n d m3] calculateHighlighting_edges_iff [OF n d m2]
      d m3 m2
    by (simp add: mk_edge_def)
qed

text \<open>
  With the empty string selected, a single edge leaving the node \<^verbatim>\<open>""\<close> has its source equal
  to the selection and is still not highlighted.
\<close>

theorem calculateHighlighting_edges_empty_id_counterexample:
  "\<not> (edge_id (mk_edge ''e1'' '''' ''node2'')
         \<in> highlightedEdges (calculateHighlighting (Some '''') [mk_edge ''e1'' '''' ''node2''])
       \<longleftrightarrow> source (mk_edge ''e1'' '''' ''node2'') = ''''
           \<or> target (mk_edge ''e1'' '''' ''node2'') = '''')"
  by (simp add: calculateHighlighting_def mk_edge_def)

text \<open>
  C2. Let the selected identifier \<open>s\<close> be a string other than the empty one. A node
  identifier \<open>n\<close> is in \<open>highlightedNodes\<close> exactly when \<open>n = s\<close> or some edge with source or
  target \<open>s\<close> has \<open>n\<close> as its source or target. In particular \<open>s\<close> itself is always a member,
  also without incident edges, and a node \<open>n \<noteq> s\<close> all of whose edges avoid \<open>s\<close> (a node two
  hops away, say) is never a member. For the empty string the sets are empty, so the
  restriction to non-empty identifiers is needed.
\<close>

theorem calculateHighlighting_nodes_iff:
  assumes "s \<noteq> ''''"
  shows "(n \<in> highlightedNodes (calculateHighlighting (Some s) edges)
            \<longleftrightarrow> n = s \<or> (\<exists>e \<in> set edges. (source e = s \<or> target e = s)
                                        \<and> (source e = n \<or> target e = n)))
       \<and> s \<in> highlightedNodes (calculateHighlighting (Some s) edges)
       \<and> (n \<noteq> s \<and> (\<forall>e \<in> set edges. source e = n \<or> target e = n
                                   \<longrightarrow> source e \<noteq> s \<and> target e \<noteq> s)
            \<longrightarrow> n \<notin> highlightedNodes (calculateHighlighting (Some s) edges))"
proof -
  have mem: "\<And>m. m \<in> highlightedNodes (calculateHighlighting (Some s) edges)
            \<longleftrightarrow> m = s \<or> (\<exists>e \<in> set edges. (source e = s \<or> target e = s)
                                        \<and> (source e = m \<or> target e = m))"
    using assms by (auto simp: calculateHighlighting_def forEach_edge_nodes)
  show ?thesis
    unfolding mem by blast
qed

text \<open>
  The test suite's edges with \<open>node1\<close> selected: \<open>node3\<close> is touched only by \<open>e2\<close>, which
  avoids \<open>node1\<close>, so \<open>node3\<close> is not highlighted.
\<close>

theorem calculateHighlighting_nodes_iff_witness:
  "''node1'' \<noteq> ''''
     \<and> ''node3'' \<noteq> ''node1''
     \<and> filter (\<lambda>e. source e = ''node3'' \<or> target e = ''node3'') mockEdges
           = [mk_edge ''e2'' ''node2'' ''node3'']
     \<and> ''node3'' \<notin> highlightedNodes (calculateHighlighting (Some ''node1'') mockEdges)
     \<and> ''node1'' \<in> highlightedNodes (calculateHighlighting (Some ''node1'') mockEdges)"
proof -
  have n: "''node1'' \<noteq> ''''" by simp
  have ne: "''node3'' \<noteq> ''node1''" by simp
  have touching: "filter (\<lambda>e. source e = ''node3'' \<or> target e = ''node3'') mockEdges
           = [mk_edge ''e2'' ''node2'' ''node3'']"
    by (simp add: mockEdges_def mk_edge_def)
  have far: "\<forall>e \<in> set mockEdges. source e = ''node3'' \<or> target e = ''node3''
                           \<longrightarrow> source e \<noteq> ''node1'' \<and> target e \<noteq> ''node1''"
    by (simp add: mockEdges_def mk_edge_def)
  from calculateHighlighting_nodes_iff [OF n, of "''node3''" mockEdges]
  have sel: "''node1'' \<in> highlightedNodes (calculateHighlighting (Some ''node1'') mockEdges)"
    and hop: "''node3'' \<noteq> ''node1'' \<and> (\<forall>e \<in> set mockEdges. source e = ''node3'' \<or> target e = ''node3''
                           \<longrightarrow> source e \<noteq> ''node1'' \<and> target e \<noteq> ''node1'')
       \<longrightarrow> ''node3'' \<notin> highlightedNodes (calculateHighlighting (Some ''node1'') mockEdges)"
    by blast+
  from hop ne far
  have "''node3'' \<notin> highlightedNodes (calculateHighlighting (Some ''node1'') mockEdges)"
    by blast
  with n ne touching sel show ?thesis
    by blast
qed

text \<open>With the empty string selected, the selection itself is not in \<open>highlightedNodes\<close>.\<close>

theorem calculateHighlighting_nodes_empty_id_counterexample:
  "'''' \<notin> highlightedNodes (calculateHighlighting (Some '''') ([] :: style_object Edge list))"
  by (simp add: calculateHighlighting_def)

text \<open>
  C8. The result of the calculator does not depend on the order of the edges (two
  sequences with the same multiset of edges give the same two sets), and appending an edge
  that already occurs in the sequence changes neither set. This holds for every selected
  identifier, present or not.
\<close>

theorem calculateHighlighting_order_and_duplicates:
  "(mset edges' = mset edges
      \<longrightarrow> calculateHighlighting selectedNodeId edges' = calculateHighlighting selectedNodeId edges)
   \<and> (e \<in> set edges
      \<longrightarrow> calculateHighlighting selectedNodeId (edges @ [e])
            = calculateHighlighting selectedNodeId edges)"
proof (intro conjI impI)
  assume "mset edges' = mset edges"
  then have "set edges' = set edges"
    by (rule mset_eq_setD)
  then show "calculateHighlighting selectedNodeId edges' = calculateHighlighting selectedNodeId edges"
    by (rule calculateHighlighting_set_cong)
next
  assume "e \<in> set edges"
  then have "set (edges @ [e]) = set edges"
    by auto
  then show "calculateHighlighting selectedNodeId (edges @ [e])
               = calculateHighlighting selectedNodeId edges"
    by (rule calculateHighlighting_set_cong)
qed

text \<open>
  The test suite's edges reversed, and with \<open>e1\<close> appended once more, give the sets of the
  test \<^verbatim>\<open>should highlight connected nodes and edges for selected node\<close>.
\<close>

theorem calculateHighlighting_order_and_duplicates_witness:
  "mset (rev mockEdges) = mset mockEdges
   \<and> calculateHighlighting (Some ''node1'') (rev mockEdges)
       = calculateHighlighting (Some ''node1'') mockEdges
   \<and> mk_edge ''e1'' ''node1'' ''node2'' \<in> set mockEdges
   \<and> calculateHighlighting (Some ''node1'') (mockEdges @ [mk_edge ''e1'' ''node1'' ''node2''])
       = calculateHighlighting (Some ''node1'') mockEdges
   \<and> calculateHighlighting (Some ''node1'') mockEdges
       = \<lparr> highlightedNodes = {''node1'', ''node2'', ''node4''}, highlightedEdges = {''e1'', ''e3''} \<rparr>"
proof -
  have p: "mset (rev mockEdges) = mset mockEdges" by simp
  have m: "mk_edge ''e1'' ''node1'' ''node2'' \<in> set mockEdges"
    by (simp add: mockEdges_def)
  have v: "calculateHighlighting (Some ''node1'') mockEdges
       = \<lparr> highlightedNodes = {''node1'', ''node2'', ''node4''}, highlightedEdges = {''e1'', ''e3''} \<rparr>"
    by (auto simp: calculateHighlighting_def mockEdges_def mk_edge_def visit_edge_def)
  show ?thesis
    using calculateHighlighting_order_and_duplicates
            [of "rev mockEdges" mockEdges "Some ''node1''" "mk_edge ''e1'' ''node1'' ''node2''"] p m v
    by simp
qed

section \<open>The style projectors\<close>

lemma nth_applyNodeHighlighting:
  "i < length nodes \<Longrightarrow>
     applyNodeHighlighting nodes hr sel config ! i
       = style_node hr sel (config_or_default config) (nodes ! i)"
  by (simp add: applyNodeHighlighting_def)

lemma nth_applyEdgeHighlighting:
  "i < length edges \<Longrightarrow>
     applyEdgeHighlighting edges hr sel config ! i
       = style_edge hr sel (config_or_default config) (edges ! i)"
  by (simp add: applyEdgeHighlighting_def)

lemma falsy_cases: "\<not> truthy sel \<longleftrightarrow> sel = None \<or> sel = Some ''''"
  by (cases sel) auto

lemma style_node_empty_id: "style_node hr (Some '''') cfg = style_node hr None cfg"
  by (rule ext) (simp add: style_node_def node_opacity_def)

lemma style_edge_empty_id: "style_edge hr (Some '''') cfg = style_edge hr None cfg"
  by (rule ext) (simp add: style_edge_def edge_style_entries_def edge_opacity_def)

lemma style_node_opacity_entry:
  "style_entry (node_style (style_node hr sel cfg n)) ''opacity''
     = Some (CssNum (node_opacity hr sel cfg n))"
  by (simp add: style_node_def style_entry_def)

lemma style_edge_opacity_entry:
  "style_entry (edge_style (style_edge hr sel cfg e)) ''opacity''
     = Some (CssNum (edge_opacity hr sel cfg e))"
  by (simp add: style_edge_def edge_style_entries_def style_entry_def)

lemma style_node_other_entries:
  "k \<noteq> ''opacity'' \<Longrightarrow>
     style_entry (node_style (style_node hr sel cfg n)) k = style_entry (node_style n) k"
  by (simp add: style_node_def style_entry_def spread_style_def split: option.split)

lemma style_edge_other_entries:
  "k \<noteq> ''strokeWidth'' \<Longrightarrow> k \<noteq> ''stroke'' \<Longrightarrow> k \<noteq> ''opacity'' \<Longrightarrow>
     style_entry (edge_style (style_edge hr sel cfg e)) k = style_entry (edge_style e) k"
  by (simp add: style_edge_def edge_style_entries_def style_entry_def spread_style_def
        split: option.split)

text \<open>
  C3. For every node of the input, the opacity entry of the output node's style is
  \<open>config.highlightedOpacity\<close> when the selected identifier is \<^verbatim>\<open>null\<close> or the empty string;
  when it is a non-empty string, the opacity is \<open>config.highlightedOpacity\<close> if the node's
  identifier is in \<open>highlightedNodes\<close> or its type is \<^verbatim>\<open>"background"\<close>, and
  \<open>config.dimmedOpacity\<close> otherwise. The empty string belongs to the first case, not to the
  second, as the closed instance after the theorem shows.
\<close>

theorem applyNodeHighlighting_opacity:
  assumes "i < length nodes"
  shows "(selectedNodeId = None \<or> selectedNodeId = Some '''' \<longrightarrow>
            style_entry (node_style (applyNodeHighlighting nodes hr selectedNodeId config ! i)) ''opacity''
              = Some (CssNum (highlightedOpacity (config_or_default config))))
       \<and> ((\<exists>s. selectedNodeId = Some s \<and> s \<noteq> '''') \<longrightarrow>
            style_entry (node_style (applyNodeHighlighting nodes hr selectedNodeId config ! i)) ''opacity''
              = Some (CssNum (if node_id (nodes ! i) \<in> highlightedNodes hr
                                   \<or> node_type (nodes ! i) = Some ''background''
                              then highlightedOpacity (config_or_default config)
                              else dimmedOpacity (config_or_default config))))"
  using assms
  by (auto simp: nth_applyNodeHighlighting style_node_def style_entry_def node_opacity_def)

text \<open>
  The test suite's nodes with the default configuration: \<open>node3\<close> is dimmed to 0.3, the
  background node keeps opacity 1, and without a selection \<open>node3\<close> has opacity 1.
\<close>

theorem applyNodeHighlighting_opacity_witness:
  "(2::nat) < length mockNodes \<and> 6 < length mockNodes
   \<and> style_entry (node_style (applyNodeHighlighting mockNodes
          \<lparr> highlightedNodes = {''node1'', ''node2''}, highlightedEdges = {} \<rparr>
          (Some ''node1'') None ! 2)) ''opacity'' = Some (CssNum 0.3)
   \<and> style_entry (node_style (applyNodeHighlighting mockNodes
          \<lparr> highlightedNodes = {''node1'', ''node2''}, highlightedEdges = {} \<rparr>
          (Some ''node1'') None ! 6)) ''opacity'' = Some (CssNum 1)
   \<and> style_entry (node_style (applyNodeHighlighting mockNodes
          \<lparr> highlightedNodes = {}, highlightedEdges = {} \<rparr>
          None None ! 2)) ''opacity'' = Some (CssNum 1)"
proof -
  have l2: "(2::nat) < length mockNodes" and l6: "6 < length mockNodes"
    by (simp_all add: mockNodes_def)
  show ?thesis
    using applyNodeHighlighting_opacity [OF l2,
            where hr = "\<lparr> highlightedNodes = {''node1'', ''node2''}, highlightedEdges = {} \<rparr>"
              and selectedNodeId = "Some ''node1''" and config = None]
          applyNodeHighlighting_opacity [OF l6,
            where hr = "\<lparr> highlightedNodes = {''node1'', ''node2''}, highlightedEdges = {} \<rparr>"
              and selectedNodeId = "Some ''node1''" and config = None]
          applyNodeHighlighting_opacity [OF l2,
            where hr = "\<lparr> highlightedNodes = {}, highlightedEdges = {} \<rparr>"
              and selectedNodeId = None and config = None]
          l2 l6
    by (simp add: mockNodes_def mk_node_def config_or_default_def DEFAULT_HIGHLIGHTING_CONFIG_def)
qed

text \<open>
  With the empty string selected, a node that is neither highlighted nor a background node
  is not dimmed: its opacity is the highlighted one, 1, not 0.3.
\<close>

theorem applyNodeHighlighting_empty_id_counterexample:
  "style_entry (node_style (applyNodeHighlighting [mk_node ''node3'' ''custom'']
        \<lparr> highlightedNodes = {}, highlightedEdges = {} \<rparr> (Some '''') None ! 0)) ''opacity''
     \<noteq> Some (CssNum (if node_id (mk_node ''node3'' ''custom'') \<in> {}
                          \<or> node_type (mk_node ''node3'' ''custom'') = Some ''background''
                       then highlightedOpacity DEFAULT_HIGHLIGHTING_CONFIG
                       else dimmedOpacity DEFAULT_HIGHLIGHTING_CONFIG))"
  by (simp add: applyNodeHighlighting_def style_node_def style_entry_def node_opacity_def
        mk_node_def config_or_default_def DEFAULT_HIGHLIGHTING_CONFIG_def)

text \<open>
  C4. For every edge of the input, with \<open>isHighlighted\<close> the membership of its identifier in
  \<open>highlightedEdges\<close>: the output's \<open>strokeWidth\<close> is \<open>config.highlightedStrokeWidth\<close> when
  \<open>isHighlighted\<close> and \<open>config.normalStrokeWidth\<close> otherwise; its \<open>stroke\<close> is
  \<open>config.highlightedEdgeColor\<close> when \<open>isHighlighted\<close> and \<open>config.normalEdgeColor\<close> otherwise;
  its \<open>opacity\<close> is \<open>config.highlightedOpacity\<close> when the selected identifier is \<^verbatim>\<open>null\<close> or
  the empty string, and otherwise \<open>config.highlightedOpacity\<close> when \<open>isHighlighted\<close> and
  \<open>config.dimmedOpacity\<close> when not; its \<open>animated\<close> flag is \<open>isHighlighted\<close>. The empty string
  counts as no selection for the opacity, as the closed instance after the theorem shows.
\<close>

theorem applyEdgeHighlighting_style:
  assumes "i < length edges"
  shows "style_entry (edge_style (applyEdgeHighlighting edges hr selectedNodeId config ! i)) ''strokeWidth''
           = Some (CssNum (if edge_id (edges ! i) \<in> highlightedEdges hr
                           then highlightedStrokeWidth (config_or_default config)
                           else normalStrokeWidth (config_or_default config)))
       \<and> style_entry (edge_style (applyEdgeHighlighting edges hr selectedNodeId config ! i)) ''stroke''
           = Some (CssStr (if edge_id (edges ! i) \<in> highlightedEdges hr
                           then highlightedEdgeColor (config_or_default config)
                           else normalEdgeColor (config_or_default config)))
       \<and> style_entry (edge_style (applyEdgeHighlighting edges hr selectedNodeId config ! i)) ''opacity''
           = Some (CssNum (if selectedNodeId = None \<or> selectedNodeId = Some ''''
                           then highlightedOpacity (config_or_default config)
                           else if edge_id (edges ! i) \<in> highlightedEdges hr
                                then highlightedOpacity (config_or_default config)
                                else dimmedOpacity (config_or_default config)))
       \<and> animated (applyEdgeHighlighting edges hr selectedNodeId config ! i)
           = Some (edge_id (edges ! i) \<in> highlightedEdges hr)"
  using assms
  by (simp add: nth_applyEdgeHighlighting style_edge_def style_entry_def edge_style_entries_def
        edge_opacity_def edge_strokeWidth_def edge_strokeColor_def edge_isHighlighted_def
        falsy_cases [symmetric])

text \<open>
  The test \<^verbatim>\<open>should style highlighted edges differently\<close>: \<open>e1\<close> gets width 3, the highlight
  colour and the animation; \<open>e4\<close> gets width 2, opacity 0.3 and no animation.
\<close>

theorem applyEdgeHighlighting_style_witness:
  "(0::nat) < length mockEdges \<and> 3 < length mockEdges
   \<and> style_entry (edge_style (applyEdgeHighlighting mockEdges
          \<lparr> highlightedNodes = {}, highlightedEdges = {''e1'', ''e2''} \<rparr>
          (Some ''node1'') None ! 0)) ''strokeWidth'' = Some (CssNum 3)
   \<and> style_entry (edge_style (applyEdgeHighlighting mockEdges
          \<lparr> highlightedNodes = {}, highlightedEdges = {''e1'', ''e2''} \<rparr>
          (Some ''node1'') None ! 0)) ''stroke'' = Some (CssStr ''#3b82f6'')
   \<and> animated (applyEdgeHighlighting mockEdges
          \<lparr> highlightedNodes = {}, highlightedEdges = {''e1'', ''e2''} \<rparr>
          (Some ''node1'') None ! 0) = Some True
   \<and> style_entry (edge_style (applyEdgeHighlighting mockEdges
          \<lparr> highlightedNodes = {}, highlightedEdges = {''e1'', ''e2''} \<rparr>
          (Some ''node1'') None ! 3)) ''strokeWidth'' = Some (CssNum 2)
   \<and> style_entry (edge_style (applyEdgeHighlighting mockEdges
          \<lparr> highlightedNodes = {}, highlightedEdges = {''e1'', ''e2''} \<rparr>
          (Some ''node1'') None ! 3)) ''opacity'' = Some (CssNum 0.3)
   \<and> animated (applyEdgeHighlighting mockEdges
          \<lparr> highlightedNodes = {}, highlightedEdges = {''e1'', ''e2''} \<rparr>
          (Some ''node1'') None ! 3) = Some False"
proof -
  have l0: "(0::nat) < length mockEdges" and l3: "3 < length mockEdges"
    by (simp_all add: mockEdges_def)
  show ?thesis
    using applyEdgeHighlighting_style [OF l0,
            of "\<lparr> highlightedNodes = {}, highlightedEdges = {''e1'', ''e2''} \<rparr>"
               "Some ''node1''" None]
          applyEdgeHighlighting_style [OF l3,
            of "\<lparr> highlightedNodes = {}, highlightedEdges = {''e1'', ''e2''} \<rparr>"
               "Some ''node1''" None]
          l0 l3
    by (simp add: mockEdges_def mk_edge_def config_or_default_def DEFAULT_HIGHLIGHTING_CONFIG_def)
qed

text \<open>
  With the empty string selected, an edge that is not highlighted keeps the highlighted
  opacity 1 instead of the dimmed 0.3.
\<close>

theorem applyEdgeHighlighting_empty_id_counterexample:
  "style_entry (edge_style (applyEdgeHighlighting [mk_edge ''e4'' ''node5'' ''node6'']
        \<lparr> highlightedNodes = {}, highlightedEdges = {} \<rparr> (Some '''') None ! 0)) ''opacity''
     \<noteq> Some (CssNum (if edge_id (mk_edge ''e4'' ''node5'' ''node6'') \<in> {}
                       then highlightedOpacity DEFAULT_HIGHLIGHTING_CONFIG
                       else dimmedOpacity DEFAULT_HIGHLIGHTING_CONFIG))"
  by (simp add: applyEdgeHighlighting_def style_edge_def style_entry_def edge_style_entries_def
        edge_opacity_def edge_isHighlighted_def
        mk_edge_def config_or_default_def DEFAULT_HIGHLIGHTING_CONFIG_def)

text \<open>
  C6. Both projectors return a sequence of the same length as their input, and the element
  at each position is the input element at that position with only its style fields
  changed: putting the old \<open>style\<close> back into an output node gives the input node, and
  putting the old \<open>style\<close> and \<open>animated\<close> back into an output edge gives the input edge. So
  the identifier, the type, the source, the target and every field in the extension part
  are unchanged, and the order is kept.
\<close>

theorem projectors_preserve_other_fields:
  "length (applyNodeHighlighting nodes hr selectedNodeId config) = length nodes
   \<and> (\<forall>i < length nodes.
         (applyNodeHighlighting nodes hr selectedNodeId config ! i)
           \<lparr> node_style := node_style (nodes ! i) \<rparr> = nodes ! i)
   \<and> length (applyEdgeHighlighting edges hr selectedNodeId config) = length edges
   \<and> (\<forall>j < length edges.
         (applyEdgeHighlighting edges hr selectedNodeId config ! j)
           \<lparr> edge_style := edge_style (edges ! j), animated := animated (edges ! j) \<rparr> = edges ! j)"
  by (simp add: applyNodeHighlighting_def applyEdgeHighlighting_def style_node_def style_edge_def)

text \<open>Two nodes and one edge with styles of their own.\<close>

theorem projectors_preserve_other_fields_witness:
  "(1::nat) < length [styledMockNode, mk_node ''bg1'' ''background'']
   \<and> map node_id (applyNodeHighlighting [styledMockNode, mk_node ''bg1'' ''background'']
                    \<lparr> highlightedNodes = {''node1''}, highlightedEdges = {} \<rparr> (Some ''node1'') None)
       = [''node1'', ''bg1'']
   \<and> (applyNodeHighlighting [styledMockNode, mk_node ''bg1'' ''background'']
          \<lparr> highlightedNodes = {''node1''}, highlightedEdges = {} \<rparr> (Some ''node1'') None ! 1)
        \<lparr> node_style := None \<rparr> = mk_node ''bg1'' ''background''
   \<and> (0::nat) < length [styledMockEdge]
   \<and> (applyEdgeHighlighting [styledMockEdge]
          \<lparr> highlightedNodes = {''node1''}, highlightedEdges = {''e1''} \<rparr> (Some ''node1'') None ! 0)
        \<lparr> edge_style := edge_style styledMockEdge, animated := Some False \<rparr> = styledMockEdge"
proof -
  have l1: "(1::nat) < length [styledMockNode, mk_node ''bg1'' ''background'']"
    and l0: "(0::nat) < length [styledMockEdge]"
    by simp_all
  have ids: "map node_id (applyNodeHighlighting [styledMockNode, mk_node ''bg1'' ''background'']
                    \<lparr> highlightedNodes = {''node1''}, highlightedEdges = {} \<rparr> (Some ''node1'') None)
       = [''node1'', ''bg1'']"
    by (simp add: applyNodeHighlighting_def style_node_def styledMockNode_def mk_node_def)
  from projectors_preserve_other_fields
         [where nodes = "[styledMockNode, mk_node ''bg1'' ''background'']"
            and edges = "[styledMockEdge]"
            and hr = "\<lparr> highlightedNodes = {''node1''}, highlightedEdges = {} \<rparr>"
            and selectedNodeId = "Some ''node1''" and config = None]
  have n: "(applyNodeHighlighting [styledMockNode, mk_node ''bg1'' ''background'']
          \<lparr> highlightedNodes = {''node1''}, highlightedEdges = {} \<rparr> (Some ''node1'') None ! 1)
        \<lparr> node_style := node_style ([styledMockNode, mk_node ''bg1'' ''background''] ! 1) \<rparr>
        = [styledMockNode, mk_node ''bg1'' ''background''] ! 1"
    using l1 by blast
  from projectors_preserve_other_fields
         [where nodes = "[styledMockNode, mk_node ''bg1'' ''background'']"
            and edges = "[styledMockEdge]"
            and hr = "\<lparr> highlightedNodes = {''node1''}, highlightedEdges = {''e1''} \<rparr>"
            and selectedNodeId = "Some ''node1''" and config = None]
  have e: "(applyEdgeHighlighting [styledMockEdge]
          \<lparr> highlightedNodes = {''node1''}, highlightedEdges = {''e1''} \<rparr> (Some ''node1'') None ! 0)
        \<lparr> edge_style := edge_style ([styledMockEdge] ! 0), animated := animated ([styledMockEdge] ! 0) \<rparr>
        = [styledMockEdge] ! 0"
    using l0 by blast
  have "node_style (mk_node ''bg1'' ''background'') = None"
    by (simp add: mk_node_def)
  moreover have "animated styledMockEdge = Some False"
    by (simp add: styledMockEdge_def)
  ultimately show ?thesis
    using l1 l0 ids n e by simp
qed

text \<open>
  C10. The style of each output node is the input node's style (the empty table when the
  node has none) with the \<open>opacity\<close> entry written; every other entry is the input's. The
  style of each output edge is the input edge's style with the \<open>strokeWidth\<close>, \<open>stroke\<close> and
  \<open>opacity\<close> entries written; every other entry is the input's.
\<close>

theorem projectors_preserve_other_style_entries:
  "(\<forall>i < length nodes.
      node_style (applyNodeHighlighting nodes hr selectedNodeId config ! i)
        = Some ((spread_style (node_style (nodes ! i)))
                  (''opacity'' \<mapsto> CssNum (node_opacity hr selectedNodeId (config_or_default config) (nodes ! i))))
      \<and> (\<forall>k. k \<noteq> ''opacity'' \<longrightarrow>
            style_entry (node_style (applyNodeHighlighting nodes hr selectedNodeId config ! i)) k
              = style_entry (node_style (nodes ! i)) k))
   \<and> (\<forall>j < length edges.
      edge_style (applyEdgeHighlighting edges hr selectedNodeId config ! j)
        = Some ((spread_style (edge_style (edges ! j)))
                  (''strokeWidth'' \<mapsto> CssNum (edge_strokeWidth hr (config_or_default config) (edges ! j)),
                   ''stroke'' \<mapsto> CssStr (edge_strokeColor hr (config_or_default config) (edges ! j)),
                   ''opacity'' \<mapsto> CssNum (edge_opacity hr selectedNodeId (config_or_default config) (edges ! j))))
      \<and> (\<forall>k. k \<noteq> ''strokeWidth'' \<and> k \<noteq> ''stroke'' \<and> k \<noteq> ''opacity'' \<longrightarrow>
            style_entry (edge_style (applyEdgeHighlighting edges hr selectedNodeId config ! j)) k
              = style_entry (edge_style (edges ! j)) k))"
proof (intro conjI allI impI)
  fix i assume "i < length nodes"
  then show "node_style (applyNodeHighlighting nodes hr selectedNodeId config ! i)
        = Some ((spread_style (node_style (nodes ! i)))
                  (''opacity'' \<mapsto> CssNum (node_opacity hr selectedNodeId (config_or_default config) (nodes ! i))))"
    by (simp add: nth_applyNodeHighlighting style_node_def)
next
  fix i k assume "i < length nodes" and "k \<noteq> ''opacity''"
  then show "style_entry (node_style (applyNodeHighlighting nodes hr selectedNodeId config ! i)) k
              = style_entry (node_style (nodes ! i)) k"
    by (simp add: nth_applyNodeHighlighting style_node_other_entries)
next
  fix j assume "j < length edges"
  then show "edge_style (applyEdgeHighlighting edges hr selectedNodeId config ! j)
        = Some ((spread_style (edge_style (edges ! j)))
                  (''strokeWidth'' \<mapsto> CssNum (edge_strokeWidth hr (config_or_default config) (edges ! j)),
                   ''stroke'' \<mapsto> CssStr (edge_strokeColor hr (config_or_default config) (edges ! j)),
                   ''opacity'' \<mapsto> CssNum (edge_opacity hr selectedNodeId (config_or_default config) (edges ! j))))"
    by (simp add: nth_applyEdgeHighlighting style_edge_def edge_style_entries_def)
next
  fix j k assume "j < length edges"
    and "k \<noteq> ''strokeWidth'' \<and> k \<noteq> ''stroke'' \<and> k \<noteq> ''opacity''"
  then show "style_entry (edge_style (applyEdgeHighlighting edges hr selectedNodeId config ! j)) k
              = style_entry (edge_style (edges ! j)) k"
    by (simp add: nth_applyEdgeHighlighting style_edge_other_entries)
qed

text \<open>
  A node with a \<open>width\<close> and an \<open>opacity\<close> of its own keeps the width and gets the dimmed
  opacity; an edge with a \<open>strokeDasharray\<close> and a \<open>stroke\<close> of its own keeps the dash pattern
  and gets the normal colour.
\<close>

theorem projectors_preserve_other_style_entries_witness:
  "(0::nat) < length [styledMockNode] \<and> ''width'' \<noteq> ''opacity''
   \<and> style_entry (node_style (applyNodeHighlighting [styledMockNode]
         \<lparr> highlightedNodes = {}, highlightedEdges = {} \<rparr> (Some ''node2'') None ! 0)) ''width''
       = Some (CssNum 200)
   \<and> style_entry (node_style (applyNodeHighlighting [styledMockNode]
         \<lparr> highlightedNodes = {}, highlightedEdges = {} \<rparr> (Some ''node2'') None ! 0)) ''opacity''
       = Some (CssNum 0.3)
   \<and> (0::nat) < length [styledMockEdge]
   \<and> ''strokeDasharray'' \<noteq> ''strokeWidth'' \<and> ''strokeDasharray'' \<noteq> ''stroke''
   \<and> ''strokeDasharray'' \<noteq> ''opacity''
   \<and> style_entry (edge_style (applyEdgeHighlighting [styledMockEdge]
         \<lparr> highlightedNodes = {}, highlightedEdges = {} \<rparr> (Some ''node2'') None ! 0)) ''strokeDasharray''
       = Some (CssStr ''5 5'')
   \<and> style_entry (edge_style (applyEdgeHighlighting [styledMockEdge]
         \<lparr> highlightedNodes = {}, highlightedEdges = {} \<rparr> (Some ''node2'') None ! 0)) ''stroke''
       = Some (CssStr ''#6b7280'')"
proof -
  have l0: "(0::nat) < length [styledMockNode]" and l0': "(0::nat) < length [styledMockEdge]"
    by simp_all
  have k1: "''width'' \<noteq> ''opacity''"
    and k2: "''strokeDasharray'' \<noteq> ''strokeWidth'' \<and> ''strokeDasharray'' \<noteq> ''stroke''
               \<and> ''strokeDasharray'' \<noteq> ''opacity''"
    by simp_all
  note P = projectors_preserve_other_style_entries
         [where nodes = "[styledMockNode]" and edges = "[styledMockEdge]"
            and hr = "\<lparr> highlightedNodes = {}, highlightedEdges = {} \<rparr>"
            and selectedNodeId = "Some ''node2''" and config = None]
  note w = P [THEN conjunct1, rule_format, OF l0, THEN conjunct2, rule_format, OF k1]
  note o = P [THEN conjunct1, rule_format, OF l0, THEN conjunct1]
  note d = P [THEN conjunct2, rule_format, OF l0', THEN conjunct2, rule_format, OF k2]
  note c = P [THEN conjunct2, rule_format, OF l0', THEN conjunct1]
  have v1: "style_entry (node_style (applyNodeHighlighting [styledMockNode]
         \<lparr> highlightedNodes = {}, highlightedEdges = {} \<rparr> (Some ''node2'') None ! 0)) ''width''
       = Some (CssNum 200)"
    unfolding w by (simp add: style_entry_def styledMockNode_def)
  have v2: "style_entry (node_style (applyNodeHighlighting [styledMockNode]
         \<lparr> highlightedNodes = {}, highlightedEdges = {} \<rparr> (Some ''node2'') None ! 0)) ''opacity''
       = Some (CssNum 0.3)"
    unfolding o
    by (simp add: style_entry_def styledMockNode_def node_opacity_def
          config_or_default_def DEFAULT_HIGHLIGHTING_CONFIG_def)
  have v3: "style_entry (edge_style (applyEdgeHighlighting [styledMockEdge]
         \<lparr> highlightedNodes = {}, highlightedEdges = {} \<rparr> (Some ''node2'') None ! 0)) ''strokeDasharray''
       = Some (CssStr ''5 5'')"
    unfolding d by (simp add: style_entry_def styledMockEdge_def)
  have v4: "style_entry (edge_style (applyEdgeHighlighting [styledMockEdge]
         \<lparr> highlightedNodes = {}, highlightedEdges = {} \<rparr> (Some ''node2'') None ! 0)) ''stroke''
       = Some (CssStr ''#6b7280'')"
    unfolding c
    by (simp add: style_entry_def edge_strokeColor_def edge_isHighlighted_def
          config_or_default_def DEFAULT_HIGHLIGHTING_CONFIG_def)
  from l0 l0' k1 k2 v1 v2 v3 v4 show ?thesis
    by blast
qed

text \<open>
  C9. Each of the four functions returns for the empty string \<^verbatim>\<open>""\<close> as selected identifier
  what it returns for \<^verbatim>\<open>null\<close>: the calculator returns the two empty sets, and the
  projectors give every node and every edge the opacity \<open>config.highlightedOpacity\<close>. For
  \<open>applyCompleteHighlighting\<close> this is stated of its result: the highlight result it returns
  holds two empty sets, its styled nodes and styled edges are the projections of the inputs
  under that empty result with no selection, and each of them has the opacity
  \<open>config.highlightedOpacity\<close>.
\<close>

theorem empty_string_like_null:
  "calculateHighlighting (Some '''') edges = calculateHighlighting None edges
   \<and> calculateHighlighting (Some '''') edges = \<lparr> highlightedNodes = {}, highlightedEdges = {} \<rparr>
   \<and> applyNodeHighlighting nodes hr (Some '''') config = applyNodeHighlighting nodes hr None config
   \<and> applyEdgeHighlighting edges hr (Some '''') config = applyEdgeHighlighting edges hr None config
   \<and> applyCompleteHighlighting nodes edges (Some '''') config
       = applyCompleteHighlighting nodes edges None config
   \<and> map (\<lambda>n. style_entry (node_style n) ''opacity'') (applyNodeHighlighting nodes hr (Some '''') config)
       = map (\<lambda>n. Some (CssNum (highlightedOpacity (config_or_default config)))) nodes
   \<and> map (\<lambda>e. style_entry (edge_style e) ''opacity'') (applyEdgeHighlighting edges hr (Some '''') config)
       = map (\<lambda>e. Some (CssNum (highlightedOpacity (config_or_default config)))) edges
   \<and> highlightingResult (applyCompleteHighlighting nodes edges (Some '''') config)
       = \<lparr> highlightedNodes = {}, highlightedEdges = {} \<rparr>
   \<and> styledNodes (applyCompleteHighlighting nodes edges (Some '''') config)
       = applyNodeHighlighting nodes \<lparr> highlightedNodes = {}, highlightedEdges = {} \<rparr> None config
   \<and> styledEdges (applyCompleteHighlighting nodes edges (Some '''') config)
       = applyEdgeHighlighting edges \<lparr> highlightedNodes = {}, highlightedEdges = {} \<rparr> None config
   \<and> map (\<lambda>n. style_entry (node_style n) ''opacity'')
         (styledNodes (applyCompleteHighlighting nodes edges (Some '''') config))
       = map (\<lambda>n. Some (CssNum (highlightedOpacity (config_or_default config)))) nodes
   \<and> map (\<lambda>e. style_entry (edge_style e) ''opacity'')
         (styledEdges (applyCompleteHighlighting nodes edges (Some '''') config))
       = map (\<lambda>e. Some (CssNum (highlightedOpacity (config_or_default config)))) edges"
proof -
  let ?none = "\<lparr> highlightedNodes = {}, highlightedEdges = {} \<rparr>"
  have calc: "calculateHighlighting (Some '''') edges = calculateHighlighting None edges"
    by (simp add: calculateHighlighting_def)
  have nodes_eq: "\<And>hr config. applyNodeHighlighting nodes hr (Some '''') config
                    = applyNodeHighlighting nodes hr None config"
    by (simp add: applyNodeHighlighting_def style_node_empty_id)
  have edges_eq: "\<And>hr config. applyEdgeHighlighting edges hr (Some '''') config
                    = applyEdgeHighlighting edges hr None config"
    by (simp add: applyEdgeHighlighting_def style_edge_empty_id)
  have complete: "applyCompleteHighlighting nodes edges (Some '''') config
                    = applyCompleteHighlighting nodes edges None config"
    by (simp add: applyCompleteHighlighting_def calc nodes_eq edges_eq)
  have node_op: "\<And>hr. map (\<lambda>n. style_entry (node_style n) ''opacity'')
                   (applyNodeHighlighting nodes hr (Some '''') config)
       = map (\<lambda>n. Some (CssNum (highlightedOpacity (config_or_default config)))) nodes"
    by (simp add: applyNodeHighlighting_def style_node_opacity_entry node_opacity_def)
  have edge_op: "\<And>hr. map (\<lambda>e. style_entry (edge_style e) ''opacity'')
                   (applyEdgeHighlighting edges hr (Some '''') config)
       = map (\<lambda>e. Some (CssNum (highlightedOpacity (config_or_default config)))) edges"
    by (simp add: applyEdgeHighlighting_def style_edge_opacity_entry edge_opacity_def)
  have passed: "config_or_default (Some (config_or_default config)) = config_or_default config"
    by (simp add: config_or_default_def)
  have f_hr: "highlightingResult (applyCompleteHighlighting nodes edges (Some '''') config) = ?none"
    by (simp add: applyCompleteHighlighting_def Let_def calculateHighlighting_empty_id)
  have f_nodes: "styledNodes (applyCompleteHighlighting nodes edges (Some '''') config)
                   = applyNodeHighlighting nodes ?none None config"
    by (simp add: applyCompleteHighlighting_def Let_def calculateHighlighting_empty_id
          applyNodeHighlighting_def passed style_node_empty_id)
  have f_edges: "styledEdges (applyCompleteHighlighting nodes edges (Some '''') config)
                   = applyEdgeHighlighting edges ?none None config"
    by (simp add: applyCompleteHighlighting_def Let_def calculateHighlighting_empty_id
          applyEdgeHighlighting_def passed style_edge_empty_id)
  have f_node_op: "map (\<lambda>n. style_entry (node_style n) ''opacity'')
         (styledNodes (applyCompleteHighlighting nodes edges (Some '''') config))
       = map (\<lambda>n. Some (CssNum (highlightedOpacity (config_or_default config)))) nodes"
    unfolding f_nodes nodes_eq [symmetric] by (rule node_op)
  have f_edge_op: "map (\<lambda>e. style_entry (edge_style e) ''opacity'')
         (styledEdges (applyCompleteHighlighting nodes edges (Some '''') config))
       = map (\<lambda>e. Some (CssNum (highlightedOpacity (config_or_default config)))) edges"
    unfolding f_edges edges_eq [symmetric] by (rule edge_op)
  show ?thesis
    apply (intro conjI)
    apply (rule calc calculateHighlighting_empty_id nodes_eq edges_eq complete node_op edge_op
             f_hr f_nodes f_edges f_node_op f_edge_op)+
    done
qed

section \<open>The store functions compute the value functions and only allocate\<close>

text \<open>Whatever can be read from a store can be read from every extension of it.\<close>

lemma cell_at_append: "cell_at h a = Some c \<Longrightarrow> cell_at (h @ ext) a = Some c"
  by (auto simp: cell_at_def nth_append split: if_splits)

lemma get_node_append: "get_node h a = Some n \<Longrightarrow> get_node (h @ ext) a = Some n"
  by (auto simp: get_node_def split: option.splits cell.splits dest: cell_at_append [where ext = ext])

lemma get_edge_append: "get_edge h a = Some n \<Longrightarrow> get_edge (h @ ext) a = Some n"
  by (auto simp: get_edge_def split: option.splits cell.splits dest: cell_at_append [where ext = ext])

lemma get_array_append: "get_array h a = Some n \<Longrightarrow> get_array (h @ ext) a = Some n"
  by (auto simp: get_array_def split: option.splits cell.splits dest: cell_at_append [where ext = ext])

lemma get_style_append: "get_style h r = Some st \<Longrightarrow> get_style (h @ ext) r = Some st"
  by (auto simp: get_style_def split: option.splits cell.splits dest: cell_at_append [where ext = ext])

lemma read_node_append:
  assumes "read_node h a = Some n"
  shows "read_node (h @ ext) a = Some n"
proof -
  from assms obtain x st where x: "get_node h a = Some x"
    and st: "get_style h (node_style x) = Some st"
    and n: "n = \<lparr> node_id = node_id x, node_type = node_type x, node_style = st,
                      \<dots> = Node.more x \<rparr>"
    by (auto simp: read_node_def split: option.splits)
  show ?thesis
    by (simp add: read_node_def get_node_append [OF x] get_style_append [OF st] n)
qed

lemma read_edge_append:
  assumes "read_edge h a = Some e"
  shows "read_edge (h @ ext) a = Some e"
proof -
  from assms obtain x st where x: "get_edge h a = Some x"
    and st: "get_style h (edge_style x) = Some st"
    and e: "e = \<lparr> edge_id = edge_id x, source = source x, target = target x,
                      edge_style = st, animated = animated x, \<dots> = Edge.more x \<rparr>"
    by (auto simp: read_edge_def split: option.splits)
  show ?thesis
    by (simp add: read_edge_def get_edge_append [OF x] get_style_append [OF st] e)
qed

lemma those_map_append:
  assumes "\<And>a x. rd h a = Some x \<Longrightarrow> rd (h @ ext) a = Some x"
  shows "those (map (rd h) as) = Some xs \<Longrightarrow> those (map (rd (h @ ext)) as) = Some xs"
proof (induction as arbitrary: xs)
  case Nil
  then show ?case by simp
next
  case (Cons a as)
  from Cons.prems obtain x ys where x: "rd h a = Some x"
    and ys: "those (map (rd h) as) = Some ys" and xs: "xs = x # ys"
    by (auto split: option.splits)
  show ?case
    by (simp add: assms [OF x] Cons.IH [OF ys] xs)
qed

lemma read_nodes_append:
  assumes "read_nodes h arr = Some ns"
  shows "read_nodes (h @ ext) arr = Some ns"
proof -
  from assms obtain as where arr: "get_array h arr = Some as"
    and ns: "those (map (read_node h) as) = Some ns"
    by (auto simp: read_nodes_def split: option.splits)
  have "those (map (read_node (h @ ext)) as) = Some ns"
    using ns by (rule those_map_append [rotated]) (rule read_node_append)
  then show ?thesis
    by (simp add: read_nodes_def get_array_append [OF arr])
qed

lemma read_edges_append:
  assumes "read_edges h arr = Some es"
  shows "read_edges (h @ ext) arr = Some es"
proof -
  from assms obtain as where arr: "get_array h arr = Some as"
    and es: "those (map (read_edge h) as) = Some es"
    by (auto simp: read_edges_def split: option.splits)
  have "those (map (read_edge (h @ ext)) as) = Some es"
    using es by (rule those_map_append [rotated]) (rule read_edge_append)
  then show ?thesis
    by (simp add: read_edges_def get_array_append [OF arr])
qed

lemma style_node_h_refines:
  assumes "read_node h a = Some n"
  shows "\<exists>b ext. style_node_h hr sel cfg a h = Some (b, h @ ext)
           \<and> read_node (h @ ext) b = Some (style_node hr sel cfg n)"
proof -
  from assms obtain x st where x: "get_node h a = Some x"
    and st: "get_style h (node_style x) = Some st"
    and n: "n = \<lparr> node_id = node_id x, node_type = node_type x, node_style = st,
                      \<dots> = Node.more x \<rparr>"
    by (auto simp: read_node_def split: option.splits)
  let ?m = "(spread_style st)(''opacity'' \<mapsto> CssNum (node_opacity hr sel cfg x))"
  let ?ext = "[StyleCell ?m, NodeCell (x \<lparr> node_style := Some (length h) \<rparr>)]"
  have run: "style_node_h hr sel cfg a h = Some (Suc (length h), h @ ?ext)"
    by (simp add: style_node_h_def x st new_object_def)
  have op: "node_opacity hr sel cfg n = node_opacity hr sel cfg x"
    by (simp add: node_opacity_def n)
  have rd: "read_node (h @ ?ext) (Suc (length h)) = Some (style_node hr sel cfg n)"
    by (simp add: read_node_def get_node_def get_style_def cell_at_def nth_append
          style_node_def op) (simp add: n)
  from run rd show ?thesis by blast
qed

lemma style_edge_h_refines:
  assumes "read_edge h a = Some e"
  shows "\<exists>b ext. style_edge_h hr sel cfg a h = Some (b, h @ ext)
           \<and> read_edge (h @ ext) b = Some (style_edge hr sel cfg e)"
proof -
  from assms obtain x st where x: "get_edge h a = Some x"
    and st: "get_style h (edge_style x) = Some st"
    and e: "e = \<lparr> edge_id = edge_id x, source = source x, target = target x,
                      edge_style = st, animated = animated x, \<dots> = Edge.more x \<rparr>"
    by (auto simp: read_edge_def split: option.splits)
  let ?m = "edge_style_entries hr sel cfg x (spread_style st)"
  let ?ext = "[StyleCell ?m, EdgeCell (x \<lparr> edge_style := Some (length h),
                 animated := Some (edge_isHighlighted hr x) \<rparr>)]"
  have run: "style_edge_h hr sel cfg a h = Some (Suc (length h), h @ ?ext)"
    by (simp add: style_edge_h_def x st new_object_def)
  have same: "edge_style_entries hr sel cfg e = edge_style_entries hr sel cfg x"
    "edge_isHighlighted hr e = edge_isHighlighted hr x"
    by (simp_all add: edge_style_entries_def edge_strokeWidth_def edge_strokeColor_def
          edge_opacity_def edge_isHighlighted_def e fun_eq_iff)
  have rd: "read_edge (h @ ?ext) (Suc (length h)) = Some (style_edge hr sel cfg e)"
    by (simp add: read_edge_def get_edge_def get_style_def cell_at_def nth_append
          style_edge_def same) (simp add: e)
  from run rd show ?thesis by blast
qed

lemma map_h_refines:
  assumes step: "\<And>a h x. rd h a = Some x \<Longrightarrow>
                   \<exists>b ext. f a h = Some (b, h @ ext) \<and> rd (h @ ext) b = Some (g x)"
    and stable: "\<And>a h ext x. rd h a = Some x \<Longrightarrow> rd (h @ ext) a = Some x"
  shows "those (map (rd h) as) = Some xs \<Longrightarrow>
           \<exists>bs ext. map_h f as h = Some (bs, h @ ext)
              \<and> those (map (rd (h @ ext)) bs) = Some (map g xs)"
proof (induction as arbitrary: h xs)
  case Nil
  then have "map_h f [] h = Some ([], h @ []) \<and> those (map (rd (h @ [])) []) = Some (map g xs)"
    by simp
  then show ?case by blast
next
  case (Cons a as)
  from Cons.prems obtain x ys where x: "rd h a = Some x"
    and ys: "those (map (rd h) as) = Some ys" and xs: "xs = x # ys"
    by (auto split: option.splits)
  from step [OF x] obtain b ext1 where f: "f a h = Some (b, h @ ext1)"
    and b: "rd (h @ ext1) b = Some (g x)"
    by blast
  have "those (map (rd (h @ ext1)) as) = Some ys"
    using ys by (rule those_map_append [rotated]) (rule stable)
  from Cons.IH [OF this] obtain bs ext2 where m: "map_h f as (h @ ext1) = Some (bs, (h @ ext1) @ ext2)"
    and bs: "those (map (rd ((h @ ext1) @ ext2)) bs) = Some (map g ys)"
    by blast
  have run: "map_h f (a # as) h = Some (b # bs, h @ (ext1 @ ext2))"
    by (simp add: f m)
  have "rd ((h @ ext1) @ ext2) b = Some (g x)"
    using b by (rule stable)
  with bs have "those (map (rd (h @ (ext1 @ ext2))) (b # bs)) = Some (map g xs)"
    by (simp add: xs)
  with run show ?case by blast
qed

lemma get_edges_of_read_edges:
  "those (map (read_edge h) as) = Some es \<Longrightarrow>
     \<exists>xs. those (map (get_edge h) as) = Some xs
        \<and> (\<forall>acc. forEach_edge s xs acc = forEach_edge s es acc)"
proof (induction as arbitrary: es)
  case Nil
  then show ?case by simp
next
  case (Cons a as)
  from Cons.prems obtain e ys where e: "read_edge h a = Some e"
    and ys: "those (map (read_edge h) as) = Some ys" and es: "es = e # ys"
    by (auto split: option.splits)
  from e obtain x where x: "get_edge h a = Some x"
    and same: "edge_id e = edge_id x" "source e = source x" "target e = target x"
    by (auto simp: read_edge_def split: option.splits)
  from Cons.IH [OF ys] obtain xs where xs: "those (map (get_edge h) as) = Some xs"
    and loop: "\<forall>acc. forEach_edge s xs acc = forEach_edge s ys acc"
    by blast
  have "visit_edge s x = visit_edge s e"
    by (simp add: visit_edge_def same fun_eq_iff)
  with loop have "\<forall>acc. forEach_edge s (x # xs) acc = forEach_edge s es acc"
    by (simp add: es)
  moreover have "those (map (get_edge h) (a # as)) = Some (x # xs)"
    by (simp add: x xs)
  ultimately show ?case by blast
qed

lemma calculateHighlighting_h_refines:
  assumes "read_edges h edges = Some es"
  shows "calculateHighlighting_h sel edges h = Some (calculateHighlighting sel es)"
proof -
  from assms obtain as where arr: "get_array h edges = Some as"
    and es: "those (map (read_edge h) as) = Some es"
    by (auto simp: read_edges_def split: option.splits)
  from get_edges_of_read_edges [OF es, of "the sel"]
  obtain xs where xs: "those (map (get_edge h) as) = Some xs"
    and loop: "\<forall>acc. forEach_edge (the sel) xs acc = forEach_edge (the sel) es acc"
    by blast
  show ?thesis
    by (simp add: calculateHighlighting_h_def calculateHighlighting_def arr xs loop)
qed

lemma applyNodeHighlighting_h_refines:
  assumes "read_nodes h nodes = Some ns"
  shows "\<exists>b ext. applyNodeHighlighting_h nodes hr sel config h = Some (b, h @ ext)
           \<and> read_nodes (h @ ext) b = Some (applyNodeHighlighting ns hr sel config)"
proof -
  let ?cfg = "config_or_default config"
  from assms obtain as where arr: "get_array h nodes = Some as"
    and ns: "those (map (read_node h) as) = Some ns"
    by (auto simp: read_nodes_def split: option.splits)
  have "\<exists>bs ext. map_h (style_node_h hr sel ?cfg) as h = Some (bs, h @ ext)
          \<and> those (map (read_node (h @ ext)) bs) = Some (map (style_node hr sel ?cfg) ns)"
    using ns
    by (rule map_h_refines [rotated 2]) (erule style_node_h_refines, erule read_node_append)
  then obtain bs ext where m: "map_h (style_node_h hr sel ?cfg) as h = Some (bs, h @ ext)"
    and bs: "those (map (read_node (h @ ext)) bs) = Some (map (style_node hr sel ?cfg) ns)"
    by blast
  have run: "applyNodeHighlighting_h nodes hr sel config h
               = Some (length (h @ ext), h @ (ext @ [ArrayCell bs]))"
    by (simp add: applyNodeHighlighting_h_def arr m new_object_def)
  have "those (map (read_node ((h @ ext) @ [ArrayCell bs])) bs)
          = Some (map (style_node hr sel ?cfg) ns)"
    using bs by (rule those_map_append [rotated]) (rule read_node_append)
  then have "read_nodes (h @ (ext @ [ArrayCell bs])) (length (h @ ext))
               = Some (applyNodeHighlighting ns hr sel config)"
    by (simp add: read_nodes_def get_array_def cell_at_def nth_append applyNodeHighlighting_def)
  with run show ?thesis by blast
qed

lemma applyEdgeHighlighting_h_refines:
  assumes "read_edges h edges = Some es"
  shows "\<exists>b ext. applyEdgeHighlighting_h edges hr sel config h = Some (b, h @ ext)
           \<and> read_edges (h @ ext) b = Some (applyEdgeHighlighting es hr sel config)"
proof -
  let ?cfg = "config_or_default config"
  from assms obtain as where arr: "get_array h edges = Some as"
    and es: "those (map (read_edge h) as) = Some es"
    by (auto simp: read_edges_def split: option.splits)
  have "\<exists>bs ext. map_h (style_edge_h hr sel ?cfg) as h = Some (bs, h @ ext)
          \<and> those (map (read_edge (h @ ext)) bs) = Some (map (style_edge hr sel ?cfg) es)"
    using es
    by (rule map_h_refines [rotated 2]) (erule style_edge_h_refines, erule read_edge_append)
  then obtain bs ext where m: "map_h (style_edge_h hr sel ?cfg) as h = Some (bs, h @ ext)"
    and bs: "those (map (read_edge (h @ ext)) bs) = Some (map (style_edge hr sel ?cfg) es)"
    by blast
  have run: "applyEdgeHighlighting_h edges hr sel config h
               = Some (length (h @ ext), h @ (ext @ [ArrayCell bs]))"
    by (simp add: applyEdgeHighlighting_h_def arr m new_object_def)
  have "those (map (read_edge ((h @ ext) @ [ArrayCell bs])) bs)
          = Some (map (style_edge hr sel ?cfg) es)"
    using bs by (rule those_map_append [rotated]) (rule read_edge_append)
  then have "read_edges (h @ (ext @ [ArrayCell bs])) (length (h @ ext))
               = Some (applyEdgeHighlighting es hr sel config)"
    by (simp add: read_edges_def get_array_def cell_at_def nth_append applyEdgeHighlighting_def)
  with run show ?thesis by blast
qed

lemma applyCompleteHighlighting_h_refines:
  assumes ns: "read_nodes h nodes = Some ns" and es: "read_edges h edges = Some es"
  shows "\<exists>r ext. applyCompleteHighlighting_h nodes edges sel config h = Some (r, h @ ext)
           \<and> read_nodes (h @ ext) (styledNodes_h r)
                 = Some (styledNodes (applyCompleteHighlighting ns es sel config))
           \<and> read_edges (h @ ext) (styledEdges_h r)
                 = Some (styledEdges (applyCompleteHighlighting ns es sel config))
           \<and> highlightingResult_h r
                 = highlightingResult (applyCompleteHighlighting ns es sel config)"
proof -
  let ?cfg = "config_or_default config"
  let ?hr = "calculateHighlighting sel es"
  have calc: "calculateHighlighting_h sel edges h = Some ?hr"
    using es by (rule calculateHighlighting_h_refines)
  from applyNodeHighlighting_h_refines [OF ns, of ?hr sel "Some ?cfg"]
  obtain sn ext1 where n: "applyNodeHighlighting_h nodes ?hr sel (Some ?cfg) h = Some (sn, h @ ext1)"
    and sn: "read_nodes (h @ ext1) sn = Some (applyNodeHighlighting ns ?hr sel (Some ?cfg))"
    by blast
  have "read_edges (h @ ext1) edges = Some es"
    using es by (rule read_edges_append)
  from applyEdgeHighlighting_h_refines [OF this, of ?hr sel "Some ?cfg"]
  obtain se ext2 where e: "applyEdgeHighlighting_h edges ?hr sel (Some ?cfg) (h @ ext1)
                             = Some (se, (h @ ext1) @ ext2)"
    and se: "read_edges ((h @ ext1) @ ext2) se = Some (applyEdgeHighlighting es ?hr sel (Some ?cfg))"
    by blast
  let ?r = "\<lparr> styledNodes_h = sn, styledEdges_h = se, highlightingResult_h = ?hr \<rparr>"
  have run: "applyCompleteHighlighting_h nodes edges sel config h = Some (?r, h @ (ext1 @ ext2))"
    by (simp add: applyCompleteHighlighting_h_def Let_def calc n e)
  have sn': "read_nodes (h @ (ext1 @ ext2)) sn = Some (applyNodeHighlighting ns ?hr sel (Some ?cfg))"
    using read_nodes_append [OF sn, of ext2] by simp
  have se': "read_edges (h @ (ext1 @ ext2)) se = Some (applyEdgeHighlighting es ?hr sel (Some ?cfg))"
    using se by simp
  have "read_nodes (h @ (ext1 @ ext2)) (styledNodes_h ?r)
          = Some (styledNodes (applyCompleteHighlighting ns es sel config))"
    by (simp add: sn' applyCompleteHighlighting_def Let_def)
  moreover have "read_edges (h @ (ext1 @ ext2)) (styledEdges_h ?r)
          = Some (styledEdges (applyCompleteHighlighting ns es sel config))"
    by (simp add: se' applyCompleteHighlighting_def Let_def)
  moreover have "highlightingResult_h ?r
          = highlightingResult (applyCompleteHighlighting ns es sel config)"
    by (simp add: applyCompleteHighlighting_def Let_def)
  ultimately show ?thesis
    using run by blast
qed

text \<open>
  C7. Take two calls of \<open>applyCompleteHighlighting\<close> with the same selected identifier and
  configuration, on stores and array addresses whose node and edge collections are
  deep-equal (they read back as the same values \<open>ns\<close> and \<open>es\<close>; the second store may be the
  one left by the first call). Both calls return; their styled nodes, styled edges and
  highlight results are deep-equal, and equal to what the function on values computes from
  \<open>ns\<close> and \<open>es\<close>. Neither call changes a cell that existed before it (the store after the
  call extends the store before it), so the input collections still read back as \<open>ns\<close>
  and \<open>es\<close>.
\<close>

theorem applyCompleteHighlighting_deterministic_no_mutation:
  assumes "read_nodes h1 nodes1 = Some ns" and "read_edges h1 edges1 = Some es"
    and "read_nodes h2 nodes2 = Some ns" and "read_edges h2 edges2 = Some es"
  shows "\<exists>r1 h1' r2 h2'.
           applyCompleteHighlighting_h nodes1 edges1 selectedNodeId config h1 = Some (r1, h1')
         \<and> applyCompleteHighlighting_h nodes2 edges2 selectedNodeId config h2 = Some (r2, h2')
         \<and> read_nodes h1' (styledNodes_h r1)
               = Some (styledNodes (applyCompleteHighlighting ns es selectedNodeId config))
         \<and> read_nodes h2' (styledNodes_h r2) = read_nodes h1' (styledNodes_h r1)
         \<and> read_edges h1' (styledEdges_h r1)
               = Some (styledEdges (applyCompleteHighlighting ns es selectedNodeId config))
         \<and> read_edges h2' (styledEdges_h r2) = read_edges h1' (styledEdges_h r1)
         \<and> highlightingResult_h r1
               = highlightingResult (applyCompleteHighlighting ns es selectedNodeId config)
         \<and> highlightingResult_h r2 = highlightingResult_h r1
         \<and> take (length h1) h1' = h1 \<and> take (length h2) h2' = h2
         \<and> read_nodes h1' nodes1 = Some ns \<and> read_edges h1' edges1 = Some es
         \<and> read_nodes h2' nodes2 = Some ns \<and> read_edges h2' edges2 = Some es"
proof -
  from applyCompleteHighlighting_h_refines [OF assms(1,2), of selectedNodeId config]
  obtain r1 ext1 where
    run1: "applyCompleteHighlighting_h nodes1 edges1 selectedNodeId config h1 = Some (r1, h1 @ ext1)"
    and n1: "read_nodes (h1 @ ext1) (styledNodes_h r1)
               = Some (styledNodes (applyCompleteHighlighting ns es selectedNodeId config))"
    and e1: "read_edges (h1 @ ext1) (styledEdges_h r1)
               = Some (styledEdges (applyCompleteHighlighting ns es selectedNodeId config))"
    and hr1: "highlightingResult_h r1
               = highlightingResult (applyCompleteHighlighting ns es selectedNodeId config)"
    by blast
  from applyCompleteHighlighting_h_refines [OF assms(3,4), of selectedNodeId config]
  obtain r2 ext2 where
    run2: "applyCompleteHighlighting_h nodes2 edges2 selectedNodeId config h2 = Some (r2, h2 @ ext2)"
    and n2: "read_nodes (h2 @ ext2) (styledNodes_h r2)
               = Some (styledNodes (applyCompleteHighlighting ns es selectedNodeId config))"
    and e2: "read_edges (h2 @ ext2) (styledEdges_h r2)
               = Some (styledEdges (applyCompleteHighlighting ns es selectedNodeId config))"
    and hr2: "highlightingResult_h r2
               = highlightingResult (applyCompleteHighlighting ns es selectedNodeId config)"
    by blast
  have frame: "take (length h1) (h1 @ ext1) = h1" "take (length h2) (h2 @ ext2) = h2"
    by simp_all
  note inputs = read_nodes_append [OF assms(1), of ext1] read_edges_append [OF assms(2), of ext1]
    read_nodes_append [OF assms(3), of ext2] read_edges_append [OF assms(4), of ext2]
  have eqs: "read_nodes (h2 @ ext2) (styledNodes_h r2) = read_nodes (h1 @ ext1) (styledNodes_h r1)"
    "read_edges (h2 @ ext2) (styledEdges_h r2) = read_edges (h1 @ ext1) (styledEdges_h r1)"
    "highlightingResult_h r2 = highlightingResult_h r1"
    by (simp_all add: n1 n2 e1 e2 hr1 hr2)
  show ?thesis
    apply (rule exI [of _ r1], rule exI [of _ "h1 @ ext1"])
    apply (rule exI [of _ r2], rule exI [of _ "h2 @ ext2"])
    apply (intro conjI)
    apply (rule run1 run2 n1 e1 hr1 eqs frame inputs)+
    done
qed

text \<open>Two stores that lay out the same two nodes and one edge at different addresses.\<close>

theorem applyCompleteHighlighting_deterministic_no_mutation_witness:
  "read_nodes demo_heap 3 = Some demo_nodes \<and> read_edges demo_heap 5 = Some demo_edges
   \<and> read_nodes demo_heap_copy 5 = Some demo_nodes
   \<and> read_edges demo_heap_copy 1 = Some demo_edges
   \<and> (\<exists>r1 h1' r2 h2'.
         applyCompleteHighlighting_h 3 5 (Some ''node1'') None demo_heap = Some (r1, h1')
       \<and> applyCompleteHighlighting_h 5 1 (Some ''node1'') None demo_heap_copy = Some (r2, h2')
       \<and> read_nodes h2' (styledNodes_h r2) = read_nodes h1' (styledNodes_h r1)
       \<and> read_edges h2' (styledEdges_h r2) = read_edges h1' (styledEdges_h r1)
       \<and> highlightingResult_h r2 = highlightingResult_h r1
       \<and> take (length demo_heap) h1' = demo_heap
       \<and> take (length demo_heap_copy) h2' = demo_heap_copy)"
proof -
  have n1: "read_nodes demo_heap 3 = Some demo_nodes"
    by (simp add: read_nodes_def read_node_def get_array_def get_node_def get_style_def
          cell_at_def demo_heap_def demo_nodes_def)
  have e1: "read_edges demo_heap 5 = Some demo_edges"
    by (simp add: read_edges_def read_edge_def get_array_def get_edge_def get_style_def
          cell_at_def demo_heap_def demo_edges_def)
  have n2: "read_nodes demo_heap_copy 5 = Some demo_nodes"
    by (simp add: read_nodes_def read_node_def get_array_def get_node_def get_style_def
          cell_at_def demo_heap_copy_def demo_nodes_def)
  have e2: "read_edges demo_heap_copy 1 = Some demo_edges"
    by (simp add: read_edges_def read_edge_def get_array_def get_edge_def get_style_def
          cell_at_def demo_heap_copy_def demo_edges_def)
  from applyCompleteHighlighting_deterministic_no_mutation
         [OF n1 e1 n2 e2, of "Some ''node1''" None]
  obtain r1 h1' r2 h2' where
    "applyCompleteHighlighting_h 3 5 (Some ''node1'') None demo_heap = Some (r1, h1')"
    "applyCompleteHighlighting_h 5 1 (Some ''node1'') None demo_heap_copy = Some (r2, h2')"
    "read_nodes h2' (styledNodes_h r2) = read_nodes h1' (styledNodes_h r1)"
    "read_edges h2' (styledEdges_h r2) = read_edges h1' (styledEdges_h r1)"
    "highlightingResult_h r2 = highlightingResult_h r1"
    "take (length demo_heap) h1' = demo_heap"
    "take (length demo_heap_copy) h2' = demo_heap_copy"
    by blast
  then have "\<exists>r1 h1' r2 h2'.
         applyCompleteHighlighting_h 3 5 (Some ''node1'') None demo_heap = Some (r1, h1')
       \<and> applyCompleteHighlighting_h 5 1 (Some ''node1'') None demo_heap_copy = Some (r2, h2')
       \<and> read_nodes h2' (styledNodes_h r2) = read_nodes h1' (styledNodes_h r1)
       \<and> read_edges h2' (styledEdges_h r2) = read_edges h1' (styledEdges_h r1)
       \<and> highlightingResult_h r2 = highlightingResult_h r1
       \<and> take (length demo_heap) h1' = demo_heap
       \<and> take (length demo_heap_copy) h2' = demo_heap_copy"
    by blast
  with n1 e1 n2 e2 show ?thesis
    by blast
qed

end
